theory Spec2Isabelle
  imports Complex_Main
begin

section \<open>JavaScript numbers\<close>

text \<open>
  The quote screen computes with JavaScript numbers, which are IEEE 754 binary64 values.
  A number is modelled as NaN, one of the two infinities, or a finite value carried as the
  exact rational it denotes. The two zeros are identified: the screen only multiplies, adds,
  compares and tests truthiness, and none of these tells \<open>-0\<close> from \<open>+0\<close>.
  Every arithmetic result is rounded to the nearest representable value, ties to even, by
  \<open>fl\<close>.
\<close>

datatype number = NaN | PInf | NInf | Fin rat

function bit_length :: "int \<Rightarrow> int" where
  "bit_length n = (if n \<le> 0 then 0 else 1 + bit_length (n div 2))"
  by pat_completeness auto
termination
  by (relation "measure nat") auto

declare bit_length.simps [simp del]

text \<open>\<open>ilog2 x\<close> is the integer \<open>e\<close> with \<open>2^e \<le> x < 2^(e+1)\<close>, for positive \<open>x\<close>.\<close>

definition ilog2 :: "rat \<Rightarrow> int" where
  "ilog2 x = (if 1 \<le> x then bit_length \<lfloor>x\<rfloor> - 1
              else - bit_length (\<lceil>1 / x\<rceil> - 1))"

definition pow2 :: "int \<Rightarrow> rat" where
  "pow2 k = (if 0 \<le> k then 2 ^ nat k else 1 / 2 ^ nat (- k))"

definition round_half_even :: "rat \<Rightarrow> int" where
  "round_half_even x =
     (let f = \<lfloor>x\<rfloor>; d = x - of_int f
      in if d < 1 / 2 then f else if 1 / 2 < d then f + 1 else if even f then f else f + 1)"

text \<open>
  Rounding to binary64: 53 significant bits, the least exponent of the last place is
  \<open>-1074\<close> (subnormal range), and a rounded magnitude of \<open>2^1024\<close> or more (binary
  exponent 1024 or more) overflows to an infinity.
\<close>

definition fl :: "rat \<Rightarrow> number" where
  "fl x =
     (if x = 0 then Fin 0
      else let a = \<bar>x\<bar>;
               q = max (ilog2 a - 52) (- 1074);
               r = of_int (round_half_even (a / pow2 q)) * pow2 q
           in if 1024 \<le> ilog2 r then (if 0 < x then PInf else NInf)
              else Fin (if 0 < x then r else - r))"

text \<open>The operator \<open>*\<close>.\<close>

fun jmul :: "number \<Rightarrow> number \<Rightarrow> number" where
  "jmul (Fin a) (Fin b) = fl (a * b)"
| "jmul NaN _ = NaN"
| "jmul _ NaN = NaN"
| "jmul PInf PInf = PInf"
| "jmul PInf NInf = NInf"
| "jmul NInf PInf = NInf"
| "jmul NInf NInf = PInf"
| "jmul PInf (Fin b) = (if b = 0 then NaN else if 0 < b then PInf else NInf)"
| "jmul NInf (Fin b) = (if b = 0 then NaN else if 0 < b then NInf else PInf)"
| "jmul (Fin a) PInf = (if a = 0 then NaN else if 0 < a then PInf else NInf)"
| "jmul (Fin a) NInf = (if a = 0 then NaN else if 0 < a then NInf else PInf)"

text \<open>The operator \<open>+\<close> on numbers.\<close>

fun jadd :: "number \<Rightarrow> number \<Rightarrow> number" where
  "jadd (Fin a) (Fin b) = fl (a + b)"
| "jadd NaN _ = NaN"
| "jadd _ NaN = NaN"
| "jadd PInf NInf = NaN"
| "jadd NInf PInf = NaN"
| "jadd PInf _ = PInf"
| "jadd NInf _ = NInf"
| "jadd _ PInf = PInf"
| "jadd _ NInf = NInf"

fun jneg :: "number \<Rightarrow> number" where
  "jneg NaN = NaN"
| "jneg PInf = NInf"
| "jneg NInf = PInf"
| "jneg (Fin a) = Fin (- a)"

fun isNaN :: "number \<Rightarrow> bool" where
  "isNaN NaN = True"
| "isNaN _ = False"

text \<open>The comparison \<open>x <= 0\<close>; every comparison with NaN is false.\<close>

fun le_zero :: "number \<Rightarrow> bool" where
  "le_zero NaN = False"
| "le_zero PInf = False"
| "le_zero NInf = True"
| "le_zero (Fin a) = (a \<le> 0)"

text \<open>The comparison \<open>x > 0\<close>.\<close>

fun gt_zero :: "number \<Rightarrow> bool" where
  "gt_zero NaN = False"
| "gt_zero PInf = True"
| "gt_zero NInf = False"
| "gt_zero (Fin a) = (0 < a)"

text \<open>\<open>x || 0\<close>: a number is falsy when it is NaN or zero.\<close>

fun or_zero :: "number \<Rightarrow> number" where
  "or_zero NaN = Fin 0"
| "or_zero (Fin a) = (if a = 0 then Fin 0 else Fin a)"
| "or_zero x = x"

section \<open>Strings and parseFloat\<close>

text \<open>
  Strings are lists of 8-bit characters. The white space that \<open>parseFloat\<close> and
  \<open>trim\<close> strip is, within that range, TAB, LF, VT, FF, CR, space and the no-break
  space; the white-space characters beyond U+00FF cannot occur in such a string.
\<close>

definition is_ws :: "char \<Rightarrow> bool" where
  "is_ws c = ((of_char c :: nat) \<in> {9, 10, 11, 12, 13, 32, 160})"

definition is_digit :: "char \<Rightarrow> bool" where
  "is_digit c = (48 \<le> (of_char c :: nat) \<and> (of_char c :: nat) \<le> 57)"

definition digit_val :: "char \<Rightarrow> int" where
  "digit_val c = of_char c - 48"

definition digits_val :: "string \<Rightarrow> int" where
  "digits_val ds = foldl (\<lambda>n c. 10 * n + digit_val c) 0 ds"

definition pow10 :: "int \<Rightarrow> rat" where
  "pow10 k = (if 0 \<le> k then 10 ^ nat k else 1 / 10 ^ nat (- k))"

text \<open>SignedInteger: an optional sign and at least one digit; the longest such prefix.\<close>

definition signed_integer :: "string \<Rightarrow> int option" where
  "signed_integer s =
     (let (neg, r) = (case s of
                        c # r \<Rightarrow> if c = CHR ''-'' then (True, r)
                                 else if c = CHR ''+'' then (False, r) else (False, s)
                      | [] \<Rightarrow> (False, s));
          ds = takeWhile is_digit r
      in if ds = [] then None else Some (if neg then - digits_val ds else digits_val ds))"

text \<open>ExponentPart after the mantissa; absent or malformed, it is not part of the prefix.\<close>

definition exponent_part :: "string \<Rightarrow> int" where
  "exponent_part s =
     (case s of
        c # r \<Rightarrow> if c = CHR ''e'' \<or> c = CHR ''E''
                 then (case signed_integer r of Some k \<Rightarrow> k | None \<Rightarrow> 0)
                 else 0
      | [] \<Rightarrow> 0)"

text \<open>
  The longest prefix that is a StrUnsignedDecimalLiteral: \<open>Infinity\<close>, digits with an
  optional fraction and exponent, or a fraction that starts with the point. Its
  mathematical value is rounded to a number; no such prefix gives NaN.
\<close>

definition str_unsigned_decimal :: "string \<Rightarrow> number" where
  "str_unsigned_decimal s =
     (if take 8 s = ''Infinity'' then PInf
      else let ip = takeWhile is_digit s;
               r1 = dropWhile is_digit s;
               has_point = (r1 \<noteq> [] \<and> hd r1 = CHR ''.'');
               fp = (if has_point then takeWhile is_digit (tl r1) else []);
               r2 = (if has_point then dropWhile is_digit (tl r1) else r1)
           in if ip = [] \<and> fp = [] then NaN
              else fl (of_int (digits_val (ip @ fp)) * pow10 (exponent_part r2 - int (length fp))))"

definition parseFloat :: "string \<Rightarrow> number" where
  "parseFloat s =
     (let t = dropWhile is_ws s
      in case t of
           c # r \<Rightarrow> if c = CHR ''-'' then jneg (str_unsigned_decimal r)
                    else if c = CHR ''+'' then str_unsigned_decimal r
                    else str_unsigned_decimal t
         | [] \<Rightarrow> NaN)"

text \<open>\<open>String.prototype.trim\<close>.\<close>

definition trim :: "string \<Rightarrow> string" where
  "trim s = rev (dropWhile is_ws (rev (dropWhile is_ws s)))"

text \<open>
  \<open>toFixed(2)\<close>, which the screen applies to every number it shows: the integer
  nearest to \<open>100 * x\<close> (the larger one at a tie), written with two decimals. At
  \<open>10^21\<close> and beyond the source language switches to the exponential notation of
  \<open>toString\<close>, which is not modelled: the result is \<open>None\<close> there.
\<close>

function digits_of :: "int \<Rightarrow> string" where
  "digits_of n = (if n < 10 then [char_of (48 + n)]
                  else digits_of (n div 10) @ [char_of (48 + n mod 10)])"
  by pat_completeness auto
termination
  by (relation "measure nat") auto

declare digits_of.simps [simp del]

definition toFixed2 :: "number \<Rightarrow> string option" where
  "toFixed2 x =
     (case x of
        NaN \<Rightarrow> Some ''NaN''
      | PInf \<Rightarrow> Some ''Infinity''
      | NInf \<Rightarrow> Some ''-Infinity''
      | Fin v \<Rightarrow>
          if 10 ^ 21 \<le> \<bar>v\<bar> then None
          else let n = \<lfloor>\<bar>v\<bar> * 100 + 1 / 2\<rfloor>;
                   ds = digits_of n;
                   m = replicate (3 - length ds) (CHR ''0'') @ ds;
                   k = length m - 2;
                   t = take k m @ ''.'' @ drop k m
               in Some (if v < 0 then CHR ''-'' # t else t))"

section \<open>Data model of the quote screen\<close>

text \<open>
  The quote screen is modelled in its later revision, the one with the fascia and
  installation add-ons; the earlier revision has the same handlers without the add-ons
  and the accessory fields.

  The interfaces of the screen. A field that clashes with another record's field or with
  a library constant is renamed: \<open>id\<close> and \<open>name\<close> of a product are \<open>pid\<close> and
  \<open>pname\<close>, \<open>name\<close> and \<open>code\<close> of a colour are \<open>color_name\<close> and
  \<open>color_code\<close>.
\<close>

record ProductColor =
  color_name :: string
  color_code :: "string option"

record Product =
  pid :: string
  pname :: string
  description :: string
  distributor_price :: number
  client_price :: number
  colors :: "ProductColor list"

record QuoteItem =
  product_id :: string
  product_name :: string
  color :: "string option"
  width :: number
  height :: number
  square_meters :: number
  unit_price :: number
  subtotal :: number
  chain_orientation :: string
  fascia_type :: string
  fascia_color :: string
  fascia_price :: number
  installation_price :: number

record BusinessConfig =
  business_name :: string
  logo_base64 :: "string option"

record Pdf =
  base64 :: string
  filename :: string

text \<open>
  The component state: one field for each \<open>useState\<close> cell that a handler below reads
  or writes (the four picker-visibility flags are left out). The text inputs \<open>width\<close>
  and \<open>height\<close> are \<open>width_input\<close> and \<open>height_input\<close>, since a line item has
  numeric fields of those names, and \<open>notes\<close> is \<open>notes_input\<close>.
\<close>

record state =
  isDistributor :: bool
  products :: "Product list"
  quoteItems :: "QuoteItem list"
  loading :: bool
  refreshing :: bool
  savingQuote :: bool
  businessConfig :: "BusinessConfig option"
  selectedProduct :: "Product option"
  colorText :: string
  width_input :: string
  height_input :: string
  chainOrientation :: string
  fasciaType :: string
  fasciaColor :: string
  fasciaPrice :: string
  installationPrice :: string
  showPdfModal :: bool
  distributorPdf :: "Pdf option"
  clientPdf :: "Pdf option"
  clientName :: string
  clientPhone :: string
  clientEmail :: string
  notes_input :: string

text \<open>
  The alerts a handler can raise, named after what they report:
  select a product, enter valid measurements, add at least one product to the quote,
  the data could not be loaded, the quote could not be saved.
\<close>

datatype error = NoProductSelected | InvalidMeasurement | EmptyQuote | LoadFailed | SaveFailed

section \<open>Pricing and line items\<close>

definition getPrice :: "state \<Rightarrow> Product \<Rightarrow> number" where
  "getPrice s product = (if isDistributor s then distributor_price product else client_price product)"

definition calculateSquareMeters :: "state \<Rightarrow> number" where
  "calculateSquareMeters s =
     (let w = or_zero (parseFloat (width_input s));
          h = or_zero (parseFloat (height_input s))
      in jmul w h)"

text \<open>The text of the calculated-area label: \<open>calculateSquareMeters().toFixed(2)\<close>.\<close>

definition calculated_area_text :: "state \<Rightarrow> string option" where
  "calculated_area_text s = toFixed2 (calculateSquareMeters s)"

definition getFasciaPriceValue :: "state \<Rightarrow> number" where
  "getFasciaPriceValue s = or_zero (parseFloat (fasciaPrice s))"

definition getInstallationPriceValue :: "state \<Rightarrow> number" where
  "getInstallationPriceValue s = or_zero (parseFloat (installationPrice s))"

text \<open>\<open>colorText.trim() || null\<close>, and \<open>clientName || null\<close>: the empty string is falsy.\<close>

definition or_null :: "string \<Rightarrow> string option" where
  "or_null t = (if t = [] then None else Some t)"

text \<open>
  \<open>addItemToQuote\<close>: the two early returns are the error results; otherwise the new
  item is appended and the form is reset.
\<close>

definition addItemToQuote :: "state \<Rightarrow> error + state" where
  "addItemToQuote s =
     (case selectedProduct s of
        None \<Rightarrow> Inl NoProductSelected
      | Some product \<Rightarrow>
          let w = parseFloat (width_input s);
              h = parseFloat (height_input s)
          in if isNaN w \<or> isNaN h \<or> le_zero w \<or> le_zero h then Inl InvalidMeasurement
             else
               let sqm = jmul w h;
                   unitPrice = getPrice s product;
                   productSubtotal = jmul sqm unitPrice;
                   fasciaCost = getFasciaPriceValue s;
                   installationCost = getInstallationPriceValue s;
                   subtotal' = jadd (jadd productSubtotal fasciaCost) installationCost;
                   newItem = \<lparr> product_id = pid product,
                               product_name = pname product,
                               color = or_null (trim (colorText s)),
                               width = w,
                               height = h,
                               square_meters = sqm,
                               unit_price = unitPrice,
                               subtotal = subtotal',
                               chain_orientation = chainOrientation s,
                               fascia_type = fasciaType s,
                               fascia_color = fasciaColor s,
                               fascia_price = fasciaCost,
                               installation_price = installationCost \<rparr>
               in Inr (s \<lparr> quoteItems := quoteItems s @ [newItem],
                           selectedProduct := None,
                           colorText := [],
                           width_input := [],
                           height_input := [],
                           chainOrientation := ''Derecha'',
                           fasciaType := ''Redonda'',
                           fasciaColor := ''Blanca'',
                           fasciaPrice := [],
                           installationPrice := [] \<rparr>))"

text \<open>
  \<open>Array.prototype.splice(index, 1)\<close> on a copy: a negative start counts from the end
  (clamped at 0), a start at or beyond the length removes nothing.
\<close>

definition splice1 :: "int \<Rightarrow> 'a list \<Rightarrow> 'a list" where
  "splice1 index xs =
     (let n = int (length xs);
          start = (if index < 0 then max (n + index) 0 else min index n)
      in take (nat start) xs @ drop (nat start + 1) xs)"

definition removeItem :: "int \<Rightarrow> state \<Rightarrow> state" where
  "removeItem index s = s \<lparr> quoteItems := splice1 index (quoteItems s) \<rparr>"

text \<open>\<open>reduce\<close> folds from the left, starting at 0.\<close>

definition getTotal :: "state \<Rightarrow> number" where
  "getTotal s = foldl (\<lambda>sum item. jadd sum (subtotal item)) (Fin 0) (quoteItems s)"

text \<open>The confirmed branch of \<open>clearQuote\<close>.\<close>

definition clearQuote :: "state \<Rightarrow> state" where
  "clearQuote s = s \<lparr> quoteItems := [], clientName := [], clientPhone := [],
                      clientEmail := [], notes_input := [] \<rparr>"

section \<open>Requests to the backend\<close>

text \<open>
  The backend is reached only through \<open>fetch\<close>. A handler's requests are returned in
  the order they are issued; what the backend answers is an input of the handler. An
  answer is a network failure (\<open>fetch\<close> rejects), or a response with its \<open>ok\<close> flag
  and its decoded body (\<open>None\<close> when \<open>json()\<close> rejects).
\<close>

datatype 'a response = Failed | Resp bool "'a option"

record ItemRequest =
  req_product_id :: string
  req_product_name :: string
  req_color :: "string option"
  req_width :: number
  req_height :: number
  req_unit_price :: number
  req_chain_orientation :: string
  req_fascia_type :: string
  req_fascia_color :: string
  req_fascia_price :: number
  req_installation_price :: number

record QuoteData =
  items :: "ItemRequest list"
  client_type :: string
  client_name :: "string option"
  client_phone :: "string option"
  client_email :: "string option"
  quote_notes :: "string option"

datatype request =
    GetProducts
  | PostSeed
  | GetConfig
  | PostQuote QuoteData
  | GetPdfBoth string

record PdfData =
  distributor_pdf_base64 :: string
  distributor_filename :: string
  client_pdf_base64 :: string
  client_filename :: string

text \<open>The answers \<open>fetchData\<close> may receive, one for each \<open>fetch\<close> in it.\<close>

record load_answers =
  productsResponse :: "Product list response"
  seedResponse :: "unit response"
  newResponse :: "Product list response"
  configResponse :: "BusinessConfig response"

text \<open>
  The first block of the \<open>try\<close> in \<open>fetchData\<close>: the requests issued, whether the
  block completed without throwing, and the state it leaves. The seed request is sent
  only when the product list came back empty; the second list is stored without a look
  at its \<open>ok\<close> flag.
\<close>

definition fetch_products :: "load_answers \<Rightarrow> state \<Rightarrow> request list \<times> bool \<times> state" where
  "fetch_products a s =
     (case productsResponse a of
        Failed \<Rightarrow> ([GetProducts], False, s)
      | Resp ok body \<Rightarrow>
          if \<not> ok then ([GetProducts], True, s)
          else (case body of
                  None \<Rightarrow> ([GetProducts], False, s)
                | Some productsData \<Rightarrow>
                    if length productsData = 0 then
                      (case seedResponse a of
                         Failed \<Rightarrow> ([GetProducts, PostSeed], False, s)
                       | Resp _ _ \<Rightarrow>
                           (case newResponse a of
                              Failed \<Rightarrow> ([GetProducts, PostSeed, GetProducts], False, s)
                            | Resp _ None \<Rightarrow> ([GetProducts, PostSeed, GetProducts], False, s)
                            | Resp _ (Some newData) \<Rightarrow>
                                ([GetProducts, PostSeed, GetProducts], True,
                                 s \<lparr> products := newData \<rparr>)))
                    else ([GetProducts], True, s \<lparr> products := productsData \<rparr>)))"

text \<open>The second block: the business configuration.\<close>

definition fetch_config :: "load_answers \<Rightarrow> state \<Rightarrow> request list \<times> bool \<times> state" where
  "fetch_config a s =
     (case configResponse a of
        Failed \<Rightarrow> ([GetConfig], False, s)
      | Resp ok body \<Rightarrow>
          if \<not> ok then ([GetConfig], True, s)
          else (case body of
                  None \<Rightarrow> ([GetConfig], False, s)
                | Some configData \<Rightarrow> ([GetConfig], True, s \<lparr> businessConfig := Some configData \<rparr>)))"

text \<open>
  \<open>fetchData\<close>: a throw in either block skips the rest of the \<open>try\<close> and raises the
  alert; \<open>finally\<close> clears the two spinners. The result is the requests issued, the
  alert if any, and the new state.
\<close>

definition fetchData :: "load_answers \<Rightarrow> state \<Rightarrow> request list \<times> error option \<times> state" where
  "fetchData a s =
     (case fetch_products a s of
        (rq1, done1, s1) \<Rightarrow>
          if \<not> done1 then (rq1, Some LoadFailed, s1 \<lparr> loading := False, refreshing := False \<rparr>)
          else (case fetch_config a s1 of
                  (rq2, done2, s2) \<Rightarrow>
                    (rq1 @ rq2, if done2 then None else Some LoadFailed,
                     s2 \<lparr> loading := False, refreshing := False \<rparr>)))"

definition onRefresh :: "load_answers \<Rightarrow> state \<Rightarrow> request list \<times> error option \<times> state" where
  "onRefresh a s = fetchData a (s \<lparr> refreshing := True \<rparr>)"

text \<open>The answers \<open>saveAndExportPDF\<close> may receive; a saved quote is known by its id.\<close>

record save_answers =
  quoteResponse :: "string response"
  pdfResponse :: "PdfData response"

definition item_request :: "QuoteItem \<Rightarrow> ItemRequest" where
  "item_request item =
     \<lparr> req_product_id = product_id item,
       req_product_name = product_name item,
       req_color = color item,
       req_width = width item,
       req_height = height item,
       req_unit_price = unit_price item,
       req_chain_orientation = chain_orientation item,
       req_fascia_type = fascia_type item,
       req_fascia_color = fascia_color item,
       req_fascia_price = fascia_price item,
       req_installation_price = installation_price item \<rparr>"

definition quoteData :: "state \<Rightarrow> QuoteData" where
  "quoteData s =
     \<lparr> items = map item_request (quoteItems s),
       client_type = (if isDistributor s then ''distributor'' else ''client''),
       client_name = or_null (clientName s),
       client_phone = or_null (clientPhone s),
       client_email = or_null (clientEmail s),
       quote_notes = or_null (notes_input s) \<rparr>"

text \<open>
  \<open>saveAndExportPDF\<close>: with no line item it returns at once with the alert, before any
  state update and any request. Otherwise every failure inside the \<open>try\<close> is caught and
  reported, and \<open>finally\<close> clears \<open>savingQuote\<close>.
\<close>

definition saveAndExportPDF ::
  "save_answers \<Rightarrow> state \<Rightarrow> error + (request list \<times> error option \<times> state)" where
  "saveAndExportPDF a s =
     (if length (quoteItems s) = 0 then Inl EmptyQuote
      else
        let post = PostQuote (quoteData s);
            failed = (\<lambda>rq. Inr (rq, Some SaveFailed, s \<lparr> savingQuote := False \<rparr>))
        in case quoteResponse a of
             Failed \<Rightarrow> failed [post]
           | Resp ok body \<Rightarrow>
               if \<not> ok then failed [post]
               else (case body of
                       None \<Rightarrow> failed [post]
                     | Some saved_id \<Rightarrow>
                         (case pdfResponse a of
                            Failed \<Rightarrow> failed [post, GetPdfBoth saved_id]
                          | Resp ok' body' \<Rightarrow>
                              if \<not> ok' then failed [post, GetPdfBoth saved_id]
                              else (case body' of
                                      None \<Rightarrow> failed [post, GetPdfBoth saved_id]
                                    | Some pdfData \<Rightarrow>
                                        Inr ([post, GetPdfBoth saved_id], None,
                                             s \<lparr> distributorPdf :=
                                                   Some \<lparr> base64 = distributor_pdf_base64 pdfData,
                                                          filename = distributor_filename pdfData \<rparr>,
                                                 clientPdf :=
                                                   Some \<lparr> base64 = client_pdf_base64 pdfData,
                                                          filename = client_filename pdfData \<rparr>,
                                                 showPdfModal := True,
                                                 quoteItems := [],
                                                 clientName := [],
                                                 clientPhone := [],
                                                 clientEmail := [],
                                                 notes_input := [],
                                                 savingQuote := False \<rparr>)))))"

section \<open>The screen as a transition system\<close>

text \<open>
  What can happen to the screen: the user edits a field, picks a product, switches the
  price perspective, adds or removes a line item, clears the quote, refreshes, or saves.
  The world is the component state with the log of requests sent and of alerts shown.
\<close>

datatype event =
    SetWidth string
  | SetHeight string
  | SetColorText string
  | SetFasciaPrice string
  | SetInstallationPrice string
  | SelectProduct Product
  | SetIsDistributor bool
  | AddItemToQuote
  | RemoveItem int
  | ClearQuote
  | Refresh load_answers
  | SaveAndExportPDF save_answers

record world =
  ui :: state
  sent :: "request list"
  alerts :: "error list"

fun step :: "world \<Rightarrow> event \<Rightarrow> world" where
  "step w (SetWidth t) = w \<lparr> ui := (ui w) \<lparr> width_input := t \<rparr> \<rparr>"
| "step w (SetHeight t) = w \<lparr> ui := (ui w) \<lparr> height_input := t \<rparr> \<rparr>"
| "step w (SetColorText t) = w \<lparr> ui := (ui w) \<lparr> colorText := t \<rparr> \<rparr>"
| "step w (SetFasciaPrice t) = w \<lparr> ui := (ui w) \<lparr> fasciaPrice := t \<rparr> \<rparr>"
| "step w (SetInstallationPrice t) = w \<lparr> ui := (ui w) \<lparr> installationPrice := t \<rparr> \<rparr>"
| "step w (SelectProduct p) = w \<lparr> ui := (ui w) \<lparr> selectedProduct := Some p, colorText := [] \<rparr> \<rparr>"
| "step w (SetIsDistributor b) = w \<lparr> ui := (ui w) \<lparr> isDistributor := b \<rparr> \<rparr>"
| "step w AddItemToQuote =
     (case addItemToQuote (ui w) of
        Inl e \<Rightarrow> w \<lparr> alerts := alerts w @ [e] \<rparr>
      | Inr s' \<Rightarrow> w \<lparr> ui := s' \<rparr>)"
| "step w (RemoveItem index) = w \<lparr> ui := removeItem index (ui w) \<rparr>"
| "step w ClearQuote = w \<lparr> ui := clearQuote (ui w) \<rparr>"
| "step w (Refresh a) =
     (case onRefresh a (ui w) of
        (rq, e, s') \<Rightarrow> \<lparr> ui = s', sent = sent w @ rq,
                        alerts = alerts w @ (case e of None \<Rightarrow> [] | Some x \<Rightarrow> [x]) \<rparr>)"
| "step w (SaveAndExportPDF a) =
     (case saveAndExportPDF a (ui w) of
        Inl e \<Rightarrow> w \<lparr> alerts := alerts w @ [e] \<rparr>
      | Inr (rq, e, s') \<Rightarrow> \<lparr> ui = s', sent = sent w @ rq,
                              alerts = alerts w @ (case e of None \<Rightarrow> [] | Some x \<Rightarrow> [x]) \<rparr>)"

definition run :: "world \<Rightarrow> event list \<Rightarrow> world" where
  "run w evs = foldl step w evs"

section \<open>The seed operation of the backend\<close>

text \<open>
  Modelled from the spec: the backend's \<open>seed()\<close> (its server file is not among the
  sources). It populates a fixed initial catalog when the catalog is empty and is a
  no-op if products already exist. The initial catalog is a parameter.
\<close>

definition seed :: "Product list \<Rightarrow> Product list \<Rightarrow> Product list" where
  "seed initial catalog = (if catalog = [] then initial else catalog)"

section \<open>Reference definitions\<close>

text \<open>
  The sum of the subtotals of a list of line items, taken in entry order: the sum of no
  items is 0, and the sum of a list that ends with \<open>item\<close> is the sum of the items
  before it plus the subtotal of \<open>item\<close>. Each addition is an addition of numbers, and so
  rounds. The recursion runs over the reversed list, newest item first.
\<close>

primrec sum_newest_first :: "number list \<Rightarrow> number" where
  "sum_newest_first [] = Fin 0"
| "sum_newest_first (x # older) = jadd (sum_newest_first older) x"

definition sum_of_subtotals :: "QuoteItem list \<Rightarrow> number" where
  "sum_of_subtotals its = sum_newest_first (rev (map subtotal its))"

text \<open>The events that take line items out of the quote.\<close>

fun removes_items :: "event \<Rightarrow> bool" where
  "removes_items (RemoveItem _) = True"
| "removes_items ClearQuote = True"
| "removes_items (SaveAndExportPDF _) = True"
| "removes_items _ = False"

text \<open>\<open>within_rel tol target x\<close>: \<open>x\<close> is finite and within the relative error \<open>tol\<close> of \<open>target\<close>.\<close>

definition within_rel :: "rat \<Rightarrow> rat \<Rightarrow> number \<Rightarrow> bool" where
  "within_rel tol target x =
     (case x of Fin v \<Rightarrow> \<bar>v - target\<bar> \<le> tol * \<bar>target\<bar> | _ \<Rightarrow> False)"

text \<open>The values a rounding can produce: NaN, the infinities, and the finite numbers that round to themselves.\<close>

definition is_double :: "number \<Rightarrow> bool" where
  "is_double x = (case x of Fin v \<Rightarrow> fl v = Fin v | _ \<Rightarrow> True)"

fun is_infinity :: "number \<Rightarrow> bool" where
  "is_infinity PInf = True"
| "is_infinity NInf = True"
| "is_infinity _ = False"

section \<open>Example inputs\<close>

text \<open>A product, the state the screen starts in, and filled-in forms used as test inputs.\<close>

definition demo_product :: Product where
  "demo_product = \<lparr> pid = ''p1'', pname = ''Screen 5%'', description = ''Tela screen'',
                     distributor_price = Fin 45, client_price = Fin 60, colors = [] \<rparr>"

definition initial_state :: state where
  "initial_state =
     \<lparr> isDistributor = True, products = [], quoteItems = [], loading = True,
       refreshing = False, savingQuote = False, businessConfig = None,
       selectedProduct = None, colorText = [], width_input = [], height_input = [],
       chainOrientation = ''Derecha'', fasciaType = ''Redonda'', fasciaColor = ''Blanca'',
       fasciaPrice = [], installationPrice = [], showPdfModal = False,
       distributorPdf = None, clientPdf = None, clientName = [], clientPhone = [],
       clientEmail = [], notes_input = [] \<rparr>"

definition initial_world :: world where
  "initial_world = \<lparr> ui = initial_state, sent = [], alerts = [] \<rparr>"

definition demo_form :: state where
  "demo_form = initial_state \<lparr> selectedProduct := Some demo_product, width_input := ''1.25'',
      height_input := ''0.75'', fasciaPrice := ''150'', installationPrice := ''abc'' \<rparr>"

definition negative_addon_form :: state where
  "negative_addon_form = initial_state \<lparr> selectedProduct := Some demo_product,
      width_input := ''2'', height_input := ''1'', fasciaPrice := ''-500'' \<rparr>"

definition zero_width_form :: state where
  "zero_width_form = initial_state \<lparr> selectedProduct := Some demo_product,
      width_input := ''0'', height_input := ''1.5'' \<rparr>"

definition client_form :: state where
  "client_form = initial_state \<lparr> isDistributor := False, selectedProduct := Some demo_product,
      width_input := ''2'', height_input := ''1'' \<rparr>"

definition saved_answers :: save_answers where
  "saved_answers =
     \<lparr> quoteResponse = Resp True (Some ''q-1''),
       pdfResponse = Resp True (Some \<lparr> distributor_pdf_base64 = ''JVBERi0x'',
                                       distributor_filename = ''cotizacion_distribuidor.pdf'',
                                       client_pdf_base64 = ''JVBERi0y'',
                                       client_filename = ''cotizacion_cliente.pdf'' \<rparr>) \<rparr>"

definition scenario_form :: state where
  "scenario_form = initial_state \<lparr> selectedProduct := Some demo_product,
      width_input := ''1.20'', height_input := ''1.50'' \<rparr>"

definition infinite_height_form :: state where
  "infinite_height_form = initial_state \<lparr> width_input := [], height_input := ''Infinity'' \<rparr>"

definition width_only_form :: state where
  "width_only_form = initial_state \<lparr> selectedProduct := Some demo_product,
      width_input := ''1.20'', height_input := ''abc'' \<rparr>"

definition blackout_product :: Product where
  "blackout_product = \<lparr> pid = ''p2'', pname = ''Blackout'', description = ''Tela blackout'',
                         distributor_price = Fin 55, client_price = Fin 75, colors = [] \<rparr>"

definition sheer_product :: Product where
  "sheer_product = \<lparr> pid = ''p3'', pname = ''Sheer Elegance'', description = ''Tela sheer'',
                      distributor_price = Fin 70, client_price = Fin 95, colors = [] \<rparr>"

text \<open>A later catalog: the first product has new prices, the others are gone.\<close>

definition repriced_product :: Product where
  "repriced_product = demo_product \<lparr> distributor_price := Fin 99, client_price := Fin 120 \<rparr>"

definition refresh_answers :: load_answers where
  "refresh_answers =
     \<lparr> productsResponse = Resp True (Some [repriced_product]),
       seedResponse = Failed,
       newResponse = Failed,
       configResponse = Resp True (Some \<lparr> business_name = ''Persianas Master'',
                                           logo_base64 = None \<rparr>) \<rparr>"

definition empty_catalog_answers :: load_answers where
  "empty_catalog_answers =
     \<lparr> productsResponse = Resp True (Some []),
       seedResponse = Resp True (Some ()),
       newResponse = Resp True (Some [demo_product, blackout_product]),
       configResponse = Resp False None \<rparr>"

definition first_item_events :: "event list" where
  "first_item_events =
     [SelectProduct demo_product, SetWidth ''1.20'', SetHeight ''1.50'', AddItemToQuote]"

definition switched_after_add_events :: "event list" where
  "switched_after_add_events = first_item_events @ [SetIsDistributor False]"

definition later_events :: "event list" where
  "later_events =
     [Refresh refresh_answers, SetIsDistributor False, SelectProduct repriced_product,
      SetWidth ''2'', SetHeight ''1'', AddItemToQuote]"

definition second_item_events :: "event list" where
  "second_item_events =
     [SetIsDistributor False, SelectProduct demo_product, SetWidth ''1.20'', SetHeight ''1.50'',
      SetFasciaPrice ''150'', SetInstallationPrice ''200'', AddItemToQuote]"

definition three_items_form :: state where
  "three_items_form = ui (run initial_world
     [SelectProduct demo_product, SetWidth ''1'', SetHeight ''1'', AddItemToQuote,
      SelectProduct blackout_product, SetWidth ''2'', SetHeight ''1'', AddItemToQuote,
      SelectProduct sheer_product, SetWidth ''3'', SetHeight ''1'', AddItemToQuote,
      SelectProduct demo_product, SetWidth ''4'', SetHeight ''1''])"

section \<open>Properties of the number model\<close>

text \<open>
  The exponent function is correct, a finite result of the rounding rounds to itself, and
  so adding zero to such a number changes nothing.
\<close>

lemma pow2_powi: "pow2 k = 2 powi k"
  by (simp add: pow2_def power_int_def inverse_eq_divide power_one_over)

lemma pow2_pos: "0 < pow2 k"
  by (simp add: pow2_powi zero_less_power_int)

lemma pow2_add: "pow2 (j + k) = pow2 j * pow2 k"
  by (simp add: pow2_powi power_int_add)

lemma pow2_less: "j < k \<Longrightarrow> pow2 j < pow2 k"
  by (simp add: pow2_powi power_int_strict_increasing)

lemma pow2_le: "j \<le> k \<Longrightarrow> pow2 j \<le> pow2 k"
  by (simp add: pow2_powi power_int_increasing)

lemma pow2_nat: "0 \<le> k \<Longrightarrow> pow2 k = of_int (2 ^ nat k)"
  by (simp add: pow2_def)

lemma bit_length_bounds:
  "0 < n \<Longrightarrow> 1 \<le> bit_length n \<and> 2 ^ nat (bit_length n - 1) \<le> n \<and> n < 2 ^ nat (bit_length n)"
proof (induction n rule: bit_length.induct)
  case (1 n)
  show ?case
  proof (cases "n = 1")
    case True
    then show ?thesis by (simp add: bit_length.simps [of 1] bit_length.simps [of 0])
  next
    case False
    with "1.prems" have h: "0 < n div 2" by linarith
    with "1.prems" "1.IH" have ih: "1 \<le> bit_length (n div 2)"
      "2 ^ nat (bit_length (n div 2) - 1) \<le> n div 2" "n div 2 < 2 ^ nat (bit_length (n div 2))"
      by auto
    define k where "k = bit_length (n div 2)"
    have b: "bit_length n = k + 1"
      using "1.prems" by (simp add: bit_length.simps [of n] k_def)
    from ih(1) have k: "1 \<le> k" by (simp add: k_def)
    then have e1: "nat (k + 1 - 1) = Suc (nat (k - 1))" by simp
    from k have e2: "nat (k + 1) = Suc (nat k)" by simp
    from ih(2) have "2 * 2 ^ nat (k - 1) \<le> n" unfolding k_def by linarith
    then have lo: "2 ^ nat (bit_length n - 1) \<le> n"
      unfolding b e1 by simp
    from ih(3) have "n < 2 * 2 ^ nat k" unfolding k_def by linarith
    then have hi: "n < 2 ^ nat (bit_length n)"
      unfolding b e2 by simp
    from k lo hi show ?thesis by (simp add: b)
  qed
qed

lemma ilog2_bounds:
  assumes "0 < x"
  shows "pow2 (ilog2 x) \<le> x \<and> x < pow2 (ilog2 x + 1)"
proof (cases "1 \<le> x")
  case True
  define n where "n = \<lfloor>x\<rfloor>"
  from True have n: "0 < n" by (simp add: n_def)
  note b = bit_length_bounds [OF n]
  have e: "ilog2 x = bit_length n - 1" using True by (simp add: ilog2_def n_def)
  have "of_int (2 ^ nat (bit_length n - 1)) \<le> (of_int n :: rat)"
    using b by (simp only: of_int_le_iff)
  also have "\<dots> \<le> x" by (simp add: n_def)
  finally have lo: "pow2 (ilog2 x) \<le> x"
    using b by (simp add: e pow2_nat)
  have "n + 1 \<le> 2 ^ nat (bit_length n)" using b by simp
  then have "(of_int (n + 1) :: rat) \<le> of_int (2 ^ nat (bit_length n))"
    by (simp only: of_int_le_iff)
  moreover have "x < of_int (n + 1)" unfolding n_def using floor_correct [of x] by simp
  ultimately have "x < of_int (2 ^ nat (bit_length n))" by linarith
  then have hi: "x < pow2 (ilog2 x + 1)"
    using b by (simp add: e pow2_nat)
  from lo hi show ?thesis ..
next
  case False
  define y where "y = 1 / x"
  define n where "n = \<lceil>y\<rceil> - 1"
  from False assms have y: "1 < y" by (simp add: y_def)
  then have n: "0 < n" unfolding n_def by linarith
  note b = bit_length_bounds [OF n]
  have e: "ilog2 x = - bit_length n" using False by (simp add: ilog2_def n_def y_def)
  have "y \<le> of_int (n + 1)" unfolding n_def using ceiling_correct [of y] by simp
  moreover have "(of_int (n + 1) :: rat) \<le> of_int (2 ^ nat (bit_length n))"
    using b by (simp only: of_int_le_iff) simp
  ultimately have "y \<le> of_int (2 ^ nat (bit_length n))" by linarith
  then have yhi: "y \<le> 2 ^ nat (bit_length n)" by simp
  have "(of_int (2 ^ nat (bit_length n - 1)) :: rat) \<le> of_int n"
    using b by (simp only: of_int_le_iff)
  moreover have "of_int n < y" unfolding n_def using ceiling_correct [of y] by simp
  ultimately have "of_int (2 ^ nat (bit_length n - 1)) < y" by linarith
  then have ylo: "2 ^ nat (bit_length n - 1) < y" by simp
  have x: "x = 1 / y" by (simp add: y_def)
  have p1: "pow2 (- bit_length n) = 1 / 2 ^ nat (bit_length n)"
    using b by (simp add: pow2_def)
  have p2: "pow2 (- bit_length n + 1) = 1 / 2 ^ nat (bit_length n - 1)"
  proof (cases "bit_length n = 1")
    case True
    then show ?thesis by (simp add: pow2_def)
  next
    case False
    with b have "1 < bit_length n" by simp
    then show ?thesis by (simp add: pow2_def nat_diff_distrib)
  qed
  have l1: "pow2 (ilog2 x) = 1 / 2 ^ nat (bit_length n)" by (simp only: e p1)
  have l2: "pow2 (ilog2 x + 1) = 1 / 2 ^ nat (bit_length n - 1)" by (simp only: e p2)
  from yhi y have "1 / 2 ^ nat (bit_length n) \<le> 1 / y"
    by (intro divide_left_mono) auto
  then have lo: "pow2 (ilog2 x) \<le> x"
    unfolding l1 by (simp add: y_def)
  from ylo y have "1 / y < 1 / 2 ^ nat (bit_length n - 1)"
    by (intro divide_strict_left_mono) auto
  then have hi: "x < pow2 (ilog2 x + 1)"
    unfolding l2 by (simp add: y_def)
  from lo hi show ?thesis ..
qed

lemma ilog2_unique:
  assumes "0 < x" "pow2 e \<le> x" "x < pow2 (e + 1)"
  shows "ilog2 x = e"
proof (rule ccontr)
  assume ne: "ilog2 x \<noteq> e"
  note b = ilog2_bounds [OF assms(1)]
  show False
  proof (cases "ilog2 x < e")
    case True
    then have "pow2 (ilog2 x + 1) \<le> pow2 e" by (intro pow2_le) simp
    with b assms show False by linarith
  next
    case False
    with ne have "e + 1 \<le> ilog2 x" by simp
    then have "pow2 (e + 1) \<le> pow2 (ilog2 x)" by (rule pow2_le)
    with b assms show False by linarith
  qed
qed


lemma round_half_even_of_int: "round_half_even (of_int k) = k"
  by (simp add: round_half_even_def)

lemma round_half_even_bounds:
  assumes "0 \<le> y" "y < of_int B"
  shows "0 \<le> round_half_even y \<and> round_half_even y \<le> B"
proof -
  from assms(1) have f0: "0 \<le> \<lfloor>y\<rfloor>" by simp
  from assms(2) have "\<lfloor>y\<rfloor> < B" by (simp add: floor_less_iff)
  with f0 show ?thesis
    by (auto simp: round_half_even_def Let_def)
qed

lemma ilog2_less:
  assumes "0 < r" "r < pow2 k"
  shows "ilog2 r < k"
proof (rule ccontr)
  assume "\<not> ilog2 r < k"
  then have "pow2 k \<le> pow2 (ilog2 r)" by (intro pow2_le) simp
  with ilog2_bounds [OF assms(1)] assms(2) show False by linarith
qed

lemma pow2_diff: "pow2 j / pow2 k = pow2 (j - k)"
proof -
  have "pow2 j = pow2 (j - k) * pow2 k"
    using pow2_add [of "j - k" k] by simp
  then show ?thesis using pow2_pos [of k] by simp
qed

lemma fl_of_multiple:
  assumes k: "0 < k" and r: "r = of_int k * pow2 (max (ilog2 r - 52) (- 1074))"
    and fin: "ilog2 r < 1024"
  shows "fl r = Fin r \<and> fl (- r) = Fin (- r)"
proof -
  define q where "q = max (ilog2 r - 52) (- 1074)"
  have rq: "r = of_int k * pow2 q" using r by (simp add: q_def)
  have pos: "0 < r" using k pow2_pos [of q] by (subst rq) simp
  have "r / pow2 q = of_int k" using pow2_pos [of q] by (subst rq) simp
  then have m: "round_half_even (r / pow2 q) = k"
    by (simp add: round_half_even_of_int)
  have a: "\<bar>r\<bar> = r" "\<bar>- r\<bar> = r" using pos by simp_all
  have kq: "of_int k * pow2 q = r" using rq by simp
  from pos fin show ?thesis
    by (simp add: fl_def a Let_def q_def [symmetric] m kq)
qed

lemma fl_of_scaled_int:
  assumes m: "0 < m" "m \<le> 2 ^ 53" and q: "- 1074 \<le> q"
    and r: "r = of_int m * pow2 q" and fin: "ilog2 r < 1024"
  shows "fl r = Fin r \<and> fl (- r) = Fin (- r)"
proof -
  have pos: "0 < r" using m pow2_pos [of q] by (subst r) simp
  define q' where "q' = max (ilog2 r - 52) (- 1074)"
  have "\<exists>k > 0. r = of_int k * pow2 q'"
  proof (cases "m = 2 ^ 53")
    case True
    have p53: "pow2 53 = 2 ^ 53" by (simp add: pow2_def)
    have r53: "r = pow2 (53 + q)"
      by (simp add: r True pow2_add p53)
    have "ilog2 r = 53 + q"
    proof (rule ilog2_unique [OF pos])
      show "pow2 (53 + q) \<le> r" by (simp add: r53)
      show "r < pow2 (53 + q + 1)" unfolding r53 by (rule pow2_less) simp
    qed
    with q have q': "q' = q + 1" by (simp add: q'_def)
    have "pow2 (53 + q) = pow2 52 * pow2 (q + 1)"
      using pow2_add [of 52 "q + 1"] by (simp add: add.commute add.left_commute)
    moreover have "pow2 52 = of_int (2 ^ 52)" by (simp add: pow2_def)
    ultimately have "r = of_int (2 ^ 52) * pow2 q'" by (simp add: r53 q')
    moreover have "(0::int) < 2 ^ 52" by simp
    ultimately show ?thesis by blast
  next
    case False
    with m have "m < 2 ^ 53" by simp
    then have "(of_int m :: rat) < of_int (2 ^ 53)" by (simp only: of_int_less_iff)
    also have "\<dots> = pow2 53" by (simp add: pow2_def)
    finally have "of_int m * pow2 q < pow2 53 * pow2 q"
      using pow2_pos [of q] by simp
    then have "r < pow2 (53 + q)" by (simp add: r pow2_add)
    from ilog2_less [OF pos this] q have le: "q' \<le> q" by (simp add: q'_def)
    define d where "d = nat (q - q')"
    have "pow2 q = pow2 (q - q') * pow2 q'"
      using pow2_add [of "q - q'" q'] by simp
    also have "pow2 (q - q') = of_int (2 ^ d)" using le by (simp add: pow2_def d_def)
    finally have "r = of_int (m * 2 ^ d) * pow2 q'" by (simp add: r)
    moreover have "0 < m * 2 ^ d" using m by simp
    ultimately show ?thesis by blast
  qed
  then obtain k where "0 < k" "r = of_int k * pow2 (max (ilog2 r - 52) (- 1074))"
    by (auto simp: q'_def)
  from fl_of_multiple [OF this fin] show ?thesis .
qed

lemma fl_idem:
  assumes "fl x = Fin r"
  shows "fl r = Fin r"
proof (cases "x = 0")
  case True
  with assms show ?thesis by (simp add: fl_def)
next
  case False
  define a where "a = \<bar>x\<bar>"
  define q where "q = max (ilog2 a - 52) (- 1074)"
  define m where "m = round_half_even (a / pow2 q)"
  define r0 where "r0 = of_int m * pow2 q"
  from False have apos: "0 < a" by (simp add: a_def)
  from assms False have fin: "\<not> 1024 \<le> ilog2 r0" and rr: "r = (if 0 < x then r0 else - r0)"
    by (auto simp: fl_def Let_def a_def [symmetric] q_def [symmetric] m_def [symmetric]
        r0_def [symmetric] split: if_splits)
  have "a < pow2 (ilog2 a + 1)" using ilog2_bounds [OF apos] by simp
  also have "\<dots> \<le> pow2 (53 + q)" by (intro pow2_le) (simp add: q_def)
  finally have "a / pow2 q < pow2 (53 + q) / pow2 q"
    using pow2_pos [of q] by (simp add: divide_strict_right_mono)
  also have "\<dots> = pow2 53" by (simp add: pow2_diff)
  also have "\<dots> = of_int (2 ^ 53)" by (simp add: pow2_def)
  finally have lt: "a / pow2 q < of_int (2 ^ 53)" .
  have "0 \<le> a / pow2 q" using apos pow2_pos [of q] by simp
  from round_half_even_bounds [OF this lt] have mb: "0 \<le> m" "m \<le> 2 ^ 53"
    by (simp_all add: m_def)
  show ?thesis
  proof (cases "m = 0")
    case True
    then show ?thesis by (simp add: rr r0_def fl_def)
  next
    case False
    with mb have "0 < m" by simp
    from fl_of_scaled_int [OF this mb(2) _ r0_def] fin
    have "fl r0 = Fin r0 \<and> fl (- r0) = Fin (- r0)" by (simp add: q_def)
    then show ?thesis by (simp add: rr)
  qed
qed


text \<open>A finite result of the rounding is within half a unit in the last place of the exact value.\<close>

lemma round_half_even_error: "\<bar>of_int (round_half_even y) - y\<bar> \<le> 1 / 2"
proof -
  have "of_int \<lfloor>y\<rfloor> \<le> y" "y < of_int \<lfloor>y\<rfloor> + 1"
    using floor_correct [of y] by simp_all
  then show ?thesis
    by (auto simp: round_half_even_def Let_def abs_le_iff)
qed

lemma fl_nearest:
  assumes "fl x = Fin r"
  shows "\<bar>r - x\<bar> \<le> pow2 (max (ilog2 \<bar>x\<bar> - 52) (- 1074)) / 2"
proof (cases "x = 0")
  case True
  with assms show ?thesis using pow2_pos [of "max (ilog2 \<bar>x\<bar> - 52) (- 1074)"]
    by (simp add: fl_def)
next
  case False
  define a where "a = \<bar>x\<bar>"
  define q where "q = max (ilog2 a - 52) (- 1074)"
  define m where "m = round_half_even (a / pow2 q)"
  from assms False have rr: "r = (if 0 < x then of_int m * pow2 q else - (of_int m * pow2 q))"
    by (auto simp: fl_def Let_def a_def [symmetric] q_def [symmetric] m_def [symmetric]
        split: if_splits)
  have p: "0 < pow2 q" by (rule pow2_pos)
  have "of_int m * pow2 q - a = (of_int m - a / pow2 q) * pow2 q"
    using p by (simp add: field_simps)
  then have "\<bar>of_int m * pow2 q - a\<bar> = \<bar>of_int m - a / pow2 q\<bar> * pow2 q"
    using p by (simp add: abs_mult)
  also have "\<dots> \<le> 1 / 2 * pow2 q"
    using round_half_even_error [of "a / pow2 q"] p
    by (intro mult_right_mono) (simp_all add: m_def)
  finally have e: "\<bar>of_int m * pow2 q - a\<bar> \<le> pow2 q / 2" by simp
  have "\<bar>r - x\<bar> = \<bar>of_int m * pow2 q - a\<bar>"
    using False by (auto simp: rr a_def abs_if)
  with e show ?thesis by (simp add: q_def a_def)
qed

lemma fl_neg: "fl (- x) = jneg (fl x)"
  by (simp add: fl_def Let_def)

lemma is_double_fl: "is_double (fl x)"
  by (cases "fl x") (simp_all add: is_double_def fl_idem)

lemma is_double_jmul: "is_double (jmul x y)"
  by (cases x; cases y) (simp_all add: is_double_fl, simp_all add: is_double_def)

lemma is_double_jadd: "is_double (jadd x y)"
  by (cases x; cases y) (simp_all add: is_double_fl, simp_all add: is_double_def)

lemma jadd_zero_right: "is_double x \<Longrightarrow> jadd x (Fin 0) = x"
  by (cases x) (simp_all add: is_double_def)

lemma jadd_zero_left: "is_double x \<Longrightarrow> jadd (Fin 0) x = x"
  by (cases x) (simp_all add: is_double_def)

lemma jmul_zero_left: "\<not> is_infinity x \<Longrightarrow> \<not> isNaN x \<Longrightarrow> jmul (Fin 0) x = Fin 0"
  by (cases x) (simp_all add: fl_def)

lemma jmul_zero_right: "\<not> is_infinity x \<Longrightarrow> \<not> isNaN x \<Longrightarrow> jmul x (Fin 0) = Fin 0"
  by (cases x) (simp_all add: fl_def)

lemma or_zero_NaN: "\<not> isNaN (or_zero x)"
  by (cases x) simp_all

lemma or_zero_infinity: "is_infinity (or_zero x) = is_infinity x"
  by (cases x) simp_all

lemma parseFloat_empty: "parseFloat [] = NaN"
  by (simp add: parseFloat_def)

lemma toFixed2_zero: "toFixed2 (Fin 0) = Some ''0.00''"
  by code_simp

text \<open>A known value: \<open>0.1 + 0.2\<close> is \<open>0.30000000000000004\<close>, not \<open>0.3\<close>.\<close>

lemma sum_of_tenths:
  "jadd (parseFloat ''0.1'') (parseFloat ''0.2'') = Fin (1351079888211149 / 4503599627370496)
   \<and> jadd (parseFloat ''0.1'') (parseFloat ''0.2'') \<noteq> parseFloat ''0.3''
   \<and> toFixed2 (jadd (parseFloat ''0.1'') (parseFloat ''0.2'')) = Some ''0.30''"
  by code_simp

section \<open>Line items\<close>

lemma gt_zero_iff: "gt_zero x \<longleftrightarrow> \<not> (isNaN x \<or> le_zero x)"
  by (cases x) auto

text \<open>
  C1. A line item created from a width \<open>w > 0\<close> and a height \<open>h > 0\<close> stores the
  area \<open>w * h\<close> as the product of the two numbers, with no rounding to two decimals,
  and the subtotal \<open>w * h * p + f + i\<close>, where \<open>p\<close> is the unit price of the selected
  product and \<open>f\<close>, \<open>i\<close> are the fascia and installation add-ons; the operations are
  those of the number type, applied in this order.
\<close>

theorem addItemToQuote_stores_area_and_subtotal:
  assumes "selectedProduct s = Some p"
    and "gt_zero (parseFloat (width_input s))"
    and "gt_zero (parseFloat (height_input s))"
  shows "\<exists>s' item. addItemToQuote s = Inr s'
      \<and> quoteItems s' = quoteItems s @ [item]
      \<and> width item = parseFloat (width_input s)
      \<and> height item = parseFloat (height_input s)
      \<and> unit_price item = getPrice s p
      \<and> fascia_price item = getFasciaPriceValue s
      \<and> installation_price item = getInstallationPriceValue s
      \<and> square_meters item = jmul (width item) (height item)
      \<and> subtotal item =
          jadd (jadd (jmul (jmul (width item) (height item)) (unit_price item)) (fascia_price item))
               (installation_price item)"
  using assms by (simp add: addItemToQuote_def gt_zero_iff Let_def)

theorem addItemToQuote_stores_area_and_subtotal_witness:
  "selectedProduct demo_form = Some demo_product
   \<and> gt_zero (parseFloat (width_input demo_form))
   \<and> gt_zero (parseFloat (height_input demo_form))
   \<and> (\<exists>s' item. addItemToQuote demo_form = Inr s'
      \<and> quoteItems s' = quoteItems demo_form @ [item]
      \<and> square_meters item = Fin (15 / 16)
      \<and> subtotal item = Fin (3075 / 16))"
proof -
  have h1: "selectedProduct demo_form = Some demo_product"
    by (simp add: demo_form_def initial_state_def)
  have h2: "gt_zero (parseFloat (width_input demo_form))"
    by code_simp
  have h3: "gt_zero (parseFloat (height_input demo_form))"
    by code_simp
  have w: "parseFloat (width_input demo_form) = Fin (5 / 4)"
    by code_simp
  have h: "parseFloat (height_input demo_form) = Fin (3 / 4)"
    by code_simp
  have p: "getPrice demo_form demo_product = Fin 45"
    by code_simp
  have f: "getFasciaPriceValue demo_form = Fin 150"
    by code_simp
  have i: "getInstallationPriceValue demo_form = Fin 0"
    by code_simp
  have a: "jmul (Fin (5 / 4)) (Fin (3 / 4)) = Fin (15 / 16)"
    by code_simp
  have t: "jadd (jadd (jmul (Fin (15 / 16)) (Fin 45)) (Fin 150)) (Fin 0) = Fin (3075 / 16)"
    by code_simp
  from addItemToQuote_stores_area_and_subtotal [OF h1 h2 h3]
  obtain s' item where "addItemToQuote demo_form = Inr s'"
    "quoteItems s' = quoteItems demo_form @ [item]"
    "square_meters item = Fin (15 / 16)" "subtotal item = Fin (3075 / 16)"
    by (auto simp: w h p f i a t simp del: jmul.simps jadd.simps)
  with h1 h2 h3 show ?thesis by blast
qed

text \<open>
  C2, as the code has it. When the width or the height is not a number or is not
  positive, \<open>addItemToQuote\<close> returns early with an alert (the measurement alert, or
  the product alert when no product is selected) and changes nothing: no line item is
  created, no request is sent. The add-ons are not checked.
\<close>

theorem addItemToQuote_rejects_invalid_measurements:
  assumes "isNaN (parseFloat (width_input (ui w))) \<or> isNaN (parseFloat (height_input (ui w)))
           \<or> le_zero (parseFloat (width_input (ui w))) \<or> le_zero (parseFloat (height_input (ui w)))"
  shows "addItemToQuote (ui w) =
           Inl (if selectedProduct (ui w) = None then NoProductSelected else InvalidMeasurement)
         \<and> step w AddItemToQuote =
           w \<lparr> alerts := alerts w @
                 [if selectedProduct (ui w) = None then NoProductSelected else InvalidMeasurement] \<rparr>"
  using assms by (auto simp: addItemToQuote_def Let_def split: option.splits)

theorem addItemToQuote_rejects_invalid_measurements_witness:
  "le_zero (parseFloat (width_input (ui (initial_world \<lparr> ui := zero_width_form \<rparr>))))
   \<and> addItemToQuote zero_width_form = Inl InvalidMeasurement
   \<and> step (initial_world \<lparr> ui := zero_width_form \<rparr>) AddItemToQuote =
       \<lparr> ui = zero_width_form, sent = [], alerts = [InvalidMeasurement] \<rparr>"
proof -
  have h: "le_zero (parseFloat (width_input (ui (initial_world \<lparr> ui := zero_width_form \<rparr>))))"
    by code_simp
  have p: "selectedProduct zero_width_form \<noteq> None"
    by (simp add: zero_width_form_def)
  from h have "isNaN (parseFloat (width_input (ui (initial_world \<lparr> ui := zero_width_form \<rparr>))))
      \<or> isNaN (parseFloat (height_input (ui (initial_world \<lparr> ui := zero_width_form \<rparr>))))
      \<or> le_zero (parseFloat (width_input (ui (initial_world \<lparr> ui := zero_width_form \<rparr>))))
      \<or> le_zero (parseFloat (height_input (ui (initial_world \<lparr> ui := zero_width_form \<rparr>))))"
    by blast
  from addItemToQuote_rejects_invalid_measurements [OF this] h p
  show ?thesis by (simp add: initial_world_def)
qed

text \<open>
  With valid measurements a negative fascia price is accepted: the item is created, stores
  the negative add-on, and its subtotal is \<open>2 * 1 * 45 - 500\<close>.
\<close>

theorem negative_addon_is_accepted:
  "getFasciaPriceValue negative_addon_form = Fin (- 500)
   \<and> \<not> isl (addItemToQuote negative_addon_form)
   \<and> map fascia_price (quoteItems (projr (addItemToQuote negative_addon_form))) = [Fin (- 500)]
   \<and> map subtotal (quoteItems (projr (addItemToQuote negative_addon_form))) = [Fin (- 410)]"
  by code_simp

text \<open>
  C5, as the code has it. The unit price of a line item is the distributor price of the
  selected product exactly when the distributor perspective is switched on at the moment
  the item is added, and the client price otherwise. Switching the perspective later
  leaves the line items and their prices as they are, and the \<open>client_type\<close> of a
  saved quote is read from the switch at the moment of saving.
\<close>

theorem unit_price_follows_perspective_at_add:
  assumes "selectedProduct s = Some p" and "addItemToQuote s = Inr s'"
  shows "getPrice s p = (if isDistributor s then distributor_price p else client_price p)
     \<and> unit_price (last (quoteItems s')) =
         (if isDistributor s then distributor_price p else client_price p)
     \<and> quoteItems (ui (step w (SetIsDistributor b))) = quoteItems (ui w)
     \<and> client_type (quoteData t) = (if isDistributor t then ''distributor'' else ''client'')"
  using assms
  by (auto simp: addItemToQuote_def quoteData_def getPrice_def Let_def split: if_splits)

theorem unit_price_follows_perspective_at_add_witness:
  "selectedProduct client_form = Some demo_product
   \<and> \<not> isl (addItemToQuote client_form)
   \<and> isDistributor client_form = False
   \<and> unit_price (last (quoteItems (projr (addItemToQuote client_form)))) = Fin 60"
proof -
  have h1: "selectedProduct client_form = Some demo_product"
    by (simp add: client_form_def initial_state_def)
  have h2: "\<not> isl (addItemToQuote client_form)"
    by code_simp
  then have h3: "addItemToQuote client_form = Inr (projr (addItemToQuote client_form))"
    by (cases "addItemToQuote client_form") auto
  have c: "isDistributor client_form = False"
    by (simp add: client_form_def initial_state_def)
  have d: "client_price demo_product = Fin 60"
    by (simp add: demo_product_def)
  from unit_price_follows_perspective_at_add [OF h1 h3] h1 h2 c d show ?thesis
    by simp
qed

text \<open>
  An item added under the distributor perspective keeps the distributor price 45 when
  the perspective is switched to client afterwards: the quote then saved is posted with
  \<open>client_type\<close> \<open>client\<close> and the unit price 45, not the client price 60.
\<close>

theorem perspective_switched_after_add:
  "map unit_price (quoteItems (ui (run initial_world switched_after_add_events))) = [Fin 45]
   \<and> client_type (quoteData (ui (run initial_world switched_after_add_events))) = ''client''
   \<and> map req_unit_price (items (quoteData (ui (run initial_world switched_after_add_events))))
       = [Fin 45]
   \<and> sent (step (run initial_world switched_after_add_events) (SaveAndExportPDF saved_answers))
       = [PostQuote (quoteData (ui (run initial_world switched_after_add_events))),
          GetPdfBoth ''q-1'']
   \<and> distributor_price demo_product = Fin 45
   \<and> client_price demo_product = Fin 60"
  by code_simp

section \<open>The quote as a whole\<close>

lemma addItemToQuote_appends:
  "addItemToQuote s = Inr s' \<Longrightarrow> \<exists>item. quoteItems s' = quoteItems s @ [item]"
  by (auto simp: addItemToQuote_def Let_def split: option.splits if_splits)

lemma splice1_in_range:
  "0 \<le> i \<Longrightarrow> i < int (length xs) \<Longrightarrow> splice1 i xs = take (nat i) xs @ drop (nat i + 1) xs"
  by (simp add: splice1_def Let_def)

lemma getTotal_sum_of_subtotals: "getTotal s = sum_of_subtotals (quoteItems s)"
proof -
  have "foldl (\<lambda>sum item. jadd sum (subtotal item)) (Fin 0) its = sum_of_subtotals its" for its
    by (induction its rule: rev_induct) (simp_all add: sum_of_subtotals_def)
  then show ?thesis by (simp add: getTotal_def)
qed

text \<open>
  C3. After any sequence of events (adds, removes and all the others, in any order, from
  any starting point) the total the screen shows is the sum of the subtotals of the line
  items then in the quote, taken in entry order; with no line item the total is 0.
\<close>

theorem total_is_sum_of_current_subtotals:
  "getTotal (ui (run w evs)) = sum_of_subtotals (quoteItems (ui (run w evs)))
   \<and> getTotal (s \<lparr> quoteItems := [] \<rparr>) = Fin 0"
  by (simp add: getTotal_sum_of_subtotals sum_of_subtotals_def)

theorem total_is_sum_of_current_subtotals_witness:
  "map subtotal (quoteItems (ui (run initial_world (first_item_events @ second_item_events))))
     = [Fin (5699868278390783 / 70368744177664), Fin 458]
   \<and> getTotal (ui (run initial_world (first_item_events @ second_item_events))) = Fin 539
   \<and> sum_of_subtotals (quoteItems (ui (run initial_world (first_item_events @ second_item_events))))
       = Fin 539
   \<and> getTotal (ui (run initial_world (first_item_events @ second_item_events @ [RemoveItem 0])))
       = Fin 458"
proof -
  have 1: "map subtotal (quoteItems (ui (run initial_world (first_item_events @ second_item_events))))
     = [Fin (5699868278390783 / 70368744177664), Fin 458]"
    by code_simp
  have 2: "getTotal (ui (run initial_world (first_item_events @ second_item_events))) = Fin 539"
    by code_simp
  have 3: "getTotal (ui (run initial_world (first_item_events @ second_item_events @ [RemoveItem 0])))
       = Fin 458"
    by code_simp
  from total_is_sum_of_current_subtotals
    [of initial_world "first_item_events @ second_item_events" initial_state] 1 2 3
  show ?thesis by simp
qed

text \<open>
  C6. Saving a quote that has no line item fails with the empty-quote alert: no request
  is sent to the backend and the state of the screen is unchanged.
\<close>

theorem saveAndExportPDF_empty_quote:
  assumes "quoteItems (ui w) = []"
  shows "saveAndExportPDF a (ui w) = Inl EmptyQuote
     \<and> ui (step w (SaveAndExportPDF a)) = ui w
     \<and> sent (step w (SaveAndExportPDF a)) = sent w
     \<and> alerts (step w (SaveAndExportPDF a)) = alerts w @ [EmptyQuote]"
  using assms by (simp add: saveAndExportPDF_def)

theorem saveAndExportPDF_empty_quote_witness:
  "quoteItems (ui initial_world) = []
   \<and> saveAndExportPDF saved_answers (ui initial_world) = Inl EmptyQuote
   \<and> step initial_world (SaveAndExportPDF saved_answers) =
       \<lparr> ui = initial_state, sent = [], alerts = [EmptyQuote] \<rparr>"
proof -
  have h: "quoteItems (ui initial_world) = []"
    by (simp add: initial_world_def initial_state_def)
  from saveAndExportPDF_empty_quote [OF h, of saved_answers] h show ?thesis
    by (simp add: initial_world_def)
qed

lemma saveAndExportPDF_sends:
  "quoteItems s \<noteq> [] \<Longrightarrow> \<exists>rq e s'. saveAndExportPDF a s = Inr (PostQuote (quoteData s) # rq, e, s')"
  by (auto simp: saveAndExportPDF_def Let_def split: response.splits option.splits)

text \<open>
  C8. The line items are a sequence in entry order. Adding a line item puts it at the
  end and leaves the items before it as they were; removing the item at an index \<open>i\<close>
  within the list deletes that item alone, the items before it keep their places and the
  items after it move up by one, in the same order.
\<close>

theorem line_items_keep_entry_order:
  "(addItemToQuote s = Inr s' \<longrightarrow>
      butlast (quoteItems s') = quoteItems s \<and> length (quoteItems s') = length (quoteItems s) + 1)
   \<and> (0 \<le> i \<and> i < int (length (quoteItems s)) \<longrightarrow>
      quoteItems (removeItem i s) = take (nat i) (quoteItems s) @ drop (nat i + 1) (quoteItems s)
      \<and> length (quoteItems (removeItem i s)) + 1 = length (quoteItems s)
      \<and> (\<forall>j < nat i. quoteItems (removeItem i s) ! j = quoteItems s ! j)
      \<and> (\<forall>j. nat i \<le> j \<and> j + 1 < length (quoteItems s) \<longrightarrow>
             quoteItems (removeItem i s) ! j = quoteItems s ! (j + 1)))"
proof (intro conjI impI)
  assume "addItemToQuote s = Inr s'"
  then obtain item where "quoteItems s' = quoteItems s @ [item]"
    using addItemToQuote_appends by blast
  then show "butlast (quoteItems s') = quoteItems s"
    and "length (quoteItems s') = length (quoteItems s) + 1"
    by simp_all
next
  assume r: "0 \<le> i \<and> i < int (length (quoteItems s))"
  then have eq: "quoteItems (removeItem i s) = take (nat i) (quoteItems s) @ drop (nat i + 1) (quoteItems s)"
    by (simp add: removeItem_def splice1_in_range)
  show "quoteItems (removeItem i s) = take (nat i) (quoteItems s) @ drop (nat i + 1) (quoteItems s)"
    by (rule eq)
  from r have n: "nat i < length (quoteItems s)" by linarith
  then show "length (quoteItems (removeItem i s)) + 1 = length (quoteItems s)"
    by (simp add: eq)
  show "\<forall>j < nat i. quoteItems (removeItem i s) ! j = quoteItems s ! j"
    using n by (simp add: eq nth_append)
  show "\<forall>j. nat i \<le> j \<and> j + 1 < length (quoteItems s) \<longrightarrow>
             quoteItems (removeItem i s) ! j = quoteItems s ! (j + 1)"
    using n by (auto simp: eq nth_append min_def)
qed

theorem line_items_keep_entry_order_witness:
  "map product_name (quoteItems three_items_form) = [''Screen 5%'', ''Blackout'', ''Sheer Elegance'']
   \<and> addItemToQuote three_items_form = Inr (projr (addItemToQuote three_items_form))
   \<and> butlast (quoteItems (projr (addItemToQuote three_items_form))) = quoteItems three_items_form
   \<and> map product_name (quoteItems (projr (addItemToQuote three_items_form)))
       = [''Screen 5%'', ''Blackout'', ''Sheer Elegance'', ''Screen 5%'']
   \<and> (1::int) < int (length (quoteItems three_items_form))
   \<and> map product_name (quoteItems (removeItem 1 three_items_form))
       = [''Screen 5%'', ''Sheer Elegance'']"
proof -
  have n: "map product_name (quoteItems three_items_form)
      = [''Screen 5%'', ''Blackout'', ''Sheer Elegance'']"
    by code_simp
  have "\<not> isl (addItemToQuote three_items_form)"
    by code_simp
  then have a: "addItemToQuote three_items_form = Inr (projr (addItemToQuote three_items_form))"
    by (cases "addItemToQuote three_items_form") auto
  have m: "map product_name (quoteItems (projr (addItemToQuote three_items_form)))
       = [''Screen 5%'', ''Blackout'', ''Sheer Elegance'', ''Screen 5%'']"
    by code_simp
  from n have "length (map product_name (quoteItems three_items_form)) = 3"
    by simp
  then have l: "length (quoteItems three_items_form) = 3"
    by simp
  then have r: "(0::int) \<le> 1 \<and> 1 < int (length (quoteItems three_items_form))"
    by simp
  from line_items_keep_entry_order
    [of three_items_form "projr (addItemToQuote three_items_form)" 1] a r
  have b: "butlast (quoteItems (projr (addItemToQuote three_items_form))) = quoteItems three_items_form"
    and e: "quoteItems (removeItem 1 three_items_form) =
      take (nat 1) (quoteItems three_items_form) @ drop (nat 1 + 1) (quoteItems three_items_form)"
    by blast+
  have "map product_name (quoteItems (removeItem 1 three_items_form)) =
      take 1 (map product_name (quoteItems three_items_form))
      @ drop 2 (map product_name (quoteItems three_items_form))"
    by (simp add: e take_map drop_map numeral_2_eq_2)
  then have d: "map product_name (quoteItems (removeItem 1 three_items_form))
       = [''Screen 5%'', ''Sheer Elegance'']"
    by (simp add: n)
  from n a b m r d show ?thesis by simp
qed

lemma fetch_products_items: "quoteItems (snd (snd (fetch_products a s))) = quoteItems s"
  by (simp add: fetch_products_def split: response.splits option.splits)

lemma fetch_config_items: "quoteItems (snd (snd (fetch_config a s))) = quoteItems s"
  by (simp add: fetch_config_def split: response.splits option.splits)

lemma fetchData_items: "quoteItems (snd (snd (fetchData a s))) = quoteItems s"
proof -
  obtain rq1 d1 s1 where p: "fetch_products a s = (rq1, d1, s1)"
    by (cases "fetch_products a s") auto
  obtain rq2 d2 s2 where c: "fetch_config a s1 = (rq2, d2, s2)"
    by (cases "fetch_config a s1") auto
  from p have "quoteItems s1 = quoteItems s"
    using fetch_products_items [of a s] by simp
  moreover from c have "quoteItems s2 = quoteItems s1"
    using fetch_config_items [of a s1] by simp
  ultimately show ?thesis
    by (simp add: fetchData_def p c)
qed

lemma onRefresh_items: "quoteItems (snd (snd (onRefresh a s))) = quoteItems s"
  by (simp add: onRefresh_def fetchData_items)

lemma step_extends_items:
  assumes "\<not> removes_items ev"
  shows "\<exists>added. quoteItems (ui (step w ev)) = quoteItems (ui w) @ added"
proof (cases ev)
  case AddItemToQuote
  then show ?thesis
    by (cases "addItemToQuote (ui w)") (auto dest: addItemToQuote_appends)
next
  case (Refresh a)
  obtain rq e s' where r: "onRefresh a (ui w) = (rq, e, s')"
    by (cases "onRefresh a (ui w)") auto
  then have "quoteItems s' = quoteItems (ui w)"
    using onRefresh_items [of a "ui w"] by simp
  with Refresh r show ?thesis by simp
qed (use assms in auto)

lemma run_extends_items:
  "\<forall>ev \<in> set evs. \<not> removes_items ev \<Longrightarrow>
     \<exists>added. quoteItems (ui (run w evs)) = quoteItems (ui w) @ added"
proof (induction evs arbitrary: w)
  case Nil
  then show ?case by (simp add: run_def)
next
  case (Cons ev evs)
  from Cons.prems obtain a1 where 1: "quoteItems (ui (step w ev)) = quoteItems (ui w) @ a1"
    using step_extends_items [of ev w] by auto
  from Cons.prems Cons.IH [of "step w ev"]
  obtain a2 where 2: "quoteItems (ui (run (step w ev) evs)) = quoteItems (ui (step w ev)) @ a2"
    by auto
  from 1 2 show ?case by (simp add: run_def)
qed

text \<open>
  C7. A line item is a snapshot. A refresh of the catalog, whatever the backend answers
  (new prices, products gone), leaves the list of line items as it was; and through any
  events that do not take items out of the quote (refreshes, a change of perspective,
  edits of the form, further adds) the item at each index keeps its product name, unit
  price and subtotal.
\<close>

theorem line_items_are_snapshots:
  assumes "\<forall>ev \<in> set evs. \<not> removes_items ev"
    and "k < length (quoteItems (ui w))"
  shows "quoteItems (snd (snd (fetchData a (ui w)))) = quoteItems (ui w)
     \<and> quoteItems (ui (run w evs)) ! k = quoteItems (ui w) ! k
     \<and> product_name (quoteItems (ui (run w evs)) ! k) = product_name (quoteItems (ui w) ! k)
     \<and> unit_price (quoteItems (ui (run w evs)) ! k) = unit_price (quoteItems (ui w) ! k)
     \<and> subtotal (quoteItems (ui (run w evs)) ! k) = subtotal (quoteItems (ui w) ! k)"
proof -
  from run_extends_items [OF assms(1), of w]
  obtain added where "quoteItems (ui (run w evs)) = quoteItems (ui w) @ added" ..
  with assms(2) have "quoteItems (ui (run w evs)) ! k = quoteItems (ui w) ! k"
    by (simp add: nth_append)
  then show ?thesis by (simp add: fetchData_items)
qed

theorem line_items_are_snapshots_witness:
  "filter removes_items later_events = []
   \<and> length (quoteItems (ui (run initial_world first_item_events))) = 1
   \<and> map unit_price (quoteItems (ui (run initial_world first_item_events))) = [Fin 45]
   \<and> map distributor_price (products (ui (run (run initial_world first_item_events) later_events)))
       = [Fin 99]
   \<and> map unit_price (quoteItems (ui (run (run initial_world first_item_events) later_events)))
       = [Fin 45, Fin 120]
   \<and> unit_price (quoteItems (ui (run (run initial_world first_item_events) later_events)) ! 0)
       = unit_price (quoteItems (ui (run initial_world first_item_events)) ! 0)
   \<and> subtotal (quoteItems (ui (run (run initial_world first_item_events) later_events)) ! 0)
       = subtotal (quoteItems (ui (run initial_world first_item_events)) ! 0)"
proof -
  have h1: "\<forall>ev \<in> set later_events. \<not> removes_items ev"
    by (simp add: later_events_def)
  have n: "length (quoteItems (ui (run initial_world first_item_events))) = 1"
    by code_simp
  then have h2: "0 < length (quoteItems (ui (run initial_world first_item_events)))"
    by simp
  have f: "filter removes_items later_events = []"
    by (simp add: later_events_def)
  have u: "map unit_price (quoteItems (ui (run initial_world first_item_events))) = [Fin 45]"
    by code_simp
  have p: "map distributor_price
      (products (ui (run (run initial_world first_item_events) later_events))) = [Fin 99]"
    by code_simp
  have v: "map unit_price
      (quoteItems (ui (run (run initial_world first_item_events) later_events))) = [Fin 45, Fin 120]"
    by code_simp
  from line_items_are_snapshots [OF h1 h2, of refresh_answers] f n u p v
  show ?thesis by simp
qed

section \<open>Seeding the catalog\<close>

lemma PostSeed_fetch_products:
  "PostSeed \<in> set (fst (fetch_products a s)) \<longleftrightarrow> productsResponse a = Resp True (Some [])"
  by (auto simp: fetch_products_def split: response.splits option.splits)

lemma PostSeed_fetch_config: "PostSeed \<notin> set (fst (fetch_config a s))"
  by (auto simp: fetch_config_def split: response.splits option.splits)

lemma PostSeed_fetchData:
  "PostSeed \<in> set (fst (fetchData a s)) \<longleftrightarrow> productsResponse a = Resp True (Some [])"
proof -
  obtain rq1 d1 s1 where p: "fetch_products a s = (rq1, d1, s1)"
    by (cases "fetch_products a s") auto
  obtain rq2 d2 s2 where c: "fetch_config a s1 = (rq2, d2, s2)"
    by (cases "fetch_config a s1") auto
  from p have 1: "PostSeed \<in> set rq1 \<longleftrightarrow> productsResponse a = Resp True (Some [])"
    using PostSeed_fetch_products [of a s] by simp
  from c have 2: "PostSeed \<notin> set rq2"
    using PostSeed_fetch_config [of a s1] by simp
  from 1 2 show ?thesis
    by (simp add: fetchData_def p c)
qed

text \<open>
  C9. Seeding is idempotent: it fills an empty catalog with the initial one and leaves a
  catalog that has products as it is, so that seeding twice gives what seeding once gives
  and, with distinct ids in the initial catalog, no product twice. The screen asks for
  the seed only when the product list it received is empty.
\<close>

theorem seed_is_idempotent:
  "seed initial (seed initial catalog) = seed initial catalog
   \<and> (catalog \<noteq> [] \<longrightarrow> seed initial catalog = catalog)
   \<and> (catalog = [] \<longrightarrow> seed initial catalog = initial)
   \<and> (distinct (map pid initial) \<and> distinct (map pid catalog) \<longrightarrow>
        distinct (map pid (seed initial (seed initial catalog))))
   \<and> (PostSeed \<in> set (fst (fetchData a s)) \<longleftrightarrow> productsResponse a = Resp True (Some []))"
  by (simp add: seed_def PostSeed_fetchData)

theorem seed_is_idempotent_witness:
  "seed [demo_product, blackout_product] [] = [demo_product, blackout_product]
   \<and> seed [demo_product, blackout_product] (seed [demo_product, blackout_product] [])
       = [demo_product, blackout_product]
   \<and> seed [demo_product, blackout_product] [sheer_product] = [sheer_product]
   \<and> distinct (map pid (seed [demo_product, blackout_product]
                          (seed [demo_product, blackout_product] [])))
   \<and> fst (fetchData empty_catalog_answers initial_state)
       = [GetProducts, PostSeed, GetProducts, GetConfig]
   \<and> fst (fetchData refresh_answers initial_state) = [GetProducts, GetConfig]
   \<and> PostSeed \<in> set (fst (fetchData empty_catalog_answers initial_state))
   \<and> PostSeed \<notin> set (fst (fetchData refresh_answers initial_state))"
proof -
  have d: "distinct (map pid [demo_product, blackout_product]) \<and> distinct (map pid ([] :: Product list))"
    by (simp add: demo_product_def blackout_product_def)
  have e: "productsResponse empty_catalog_answers = Resp True (Some [])"
    by (simp add: empty_catalog_answers_def)
  have r: "productsResponse refresh_answers \<noteq> Resp True (Some [])"
    by (simp add: refresh_answers_def)
  have f1: "fst (fetchData empty_catalog_answers initial_state)
       = [GetProducts, PostSeed, GetProducts, GetConfig]"
    by (simp add: fetchData_def fetch_products_def fetch_config_def empty_catalog_answers_def)
  have f2: "fst (fetchData refresh_answers initial_state) = [GetProducts, GetConfig]"
    by (simp add: fetchData_def fetch_products_def fetch_config_def refresh_answers_def)
  have s1: "seed [demo_product, blackout_product] [] = [demo_product, blackout_product]"
    by (simp add: seed_def)
  have s2: "seed [demo_product, blackout_product] [sheer_product] = [sheer_product]"
    by (simp add: seed_def)
  from seed_is_idempotent [of "[demo_product, blackout_product]" "[]" empty_catalog_answers initial_state]
    seed_is_idempotent [of "[demo_product, blackout_product]" "[]" refresh_answers initial_state]
    d e r f1 f2 s1 s2
  show ?thesis by simp
qed

section \<open>The scenario of the distributor quote\<close>

text \<open>
  C4, as the code has it. For width 1.20, height 1.50, the distributor perspective, a
  distributor price of 45.00 and no add-ons, the stored area is the number
  1.7999999999999998 and the stored subtotal is the number 80.99999999999999: each is
  within the relative error \<open>10^-9\<close> of 1.80 and of 81.00 (the subtotal also of the
  exact product of the three numbers), and each is shown as 1.80 and 81.00.
\<close>

theorem scenario_distributor_values:
  "\<not> isl (addItemToQuote scenario_form)
   \<and> map square_meters (quoteItems (projr (addItemToQuote scenario_form)))
       = [Fin (2026619832316723 / 1125899906842624)]
   \<and> map subtotal (quoteItems (projr (addItemToQuote scenario_form)))
       = [Fin (5699868278390783 / 70368744177664)]
   \<and> map (within_rel (1 / 10 ^ 9) (9 / 5))
         (map square_meters (quoteItems (projr (addItemToQuote scenario_form)))) = [True]
   \<and> map (within_rel (1 / 10 ^ 9) 81)
         (map subtotal (quoteItems (projr (addItemToQuote scenario_form)))) = [True]
   \<and> map (within_rel (1 / 10 ^ 9) (5404319552844595 / 4503599627370496 * (3 / 2) * 45))
         (map subtotal (quoteItems (projr (addItemToQuote scenario_form)))) = [True]
   \<and> map toFixed2 (map square_meters (quoteItems (projr (addItemToQuote scenario_form))))
       = [Some ''1.80'']
   \<and> map toFixed2 (map subtotal (quoteItems (projr (addItemToQuote scenario_form))))
       = [Some ''81.00'']"
  by code_simp

text \<open>
  The parsed width is not 1.2 (no binary number is), and neither stored value is the
  number that the decimal of the scenario denotes.
\<close>

theorem scenario_values_are_not_exact:
  "parseFloat (width_input scenario_form) = Fin (5404319552844595 / 4503599627370496)
   \<and> parseFloat (height_input scenario_form) = Fin (3 / 2)
   \<and> map square_meters (quoteItems (projr (addItemToQuote scenario_form))) \<noteq> [Fin (9 / 5)]
   \<and> map square_meters (quoteItems (projr (addItemToQuote scenario_form))) \<noteq> [parseFloat ''1.80'']
   \<and> map subtotal (quoteItems (projr (addItemToQuote scenario_form))) \<noteq> [Fin 81]"
  by code_simp

section \<open>Empty and unparseable fields\<close>

text \<open>
  C10, as the code has it. An empty string does not parse. When a measurement field is
  empty or does not parse, the calculated area is 0 and is shown as 0.00, provided that
  the other measurement does not parse to an infinity. An add-on field that is empty or
  does not parse has the value 0, is stored as 0 in the line item, and leaves the subtotal
  at the sum of the product subtotal and the other add-on.
\<close>

theorem unparseable_fields_count_as_zero:
  "parseFloat [] = NaN
   \<and> ((isNaN (parseFloat (width_input s)) \<or> isNaN (parseFloat (height_input s)))
        \<and> \<not> is_infinity (parseFloat (width_input s))
        \<and> \<not> is_infinity (parseFloat (height_input s))
       \<longrightarrow> calculateSquareMeters s = Fin 0 \<and> calculated_area_text s = Some ''0.00'')
   \<and> (isNaN (parseFloat (fasciaPrice s)) \<longrightarrow> getFasciaPriceValue s = Fin 0)
   \<and> (isNaN (parseFloat (installationPrice s)) \<longrightarrow> getInstallationPriceValue s = Fin 0)
   \<and> (addItemToQuote s = Inr s' \<and> isNaN (parseFloat (fasciaPrice s)) \<longrightarrow>
        fascia_price (last (quoteItems s')) = Fin 0
        \<and> subtotal (last (quoteItems s')) =
            jadd (jmul (square_meters (last (quoteItems s'))) (unit_price (last (quoteItems s'))))
                 (installation_price (last (quoteItems s'))))
   \<and> (addItemToQuote s = Inr s' \<and> isNaN (parseFloat (installationPrice s)) \<longrightarrow>
        installation_price (last (quoteItems s')) = Fin 0
        \<and> subtotal (last (quoteItems s')) =
            jadd (jmul (square_meters (last (quoteItems s'))) (unit_price (last (quoteItems s'))))
                 (fascia_price (last (quoteItems s'))))"
proof (intro conjI impI)
  show "parseFloat [] = NaN" by (rule parseFloat_empty)
next
  assume a: "(isNaN (parseFloat (width_input s)) \<or> isNaN (parseFloat (height_input s)))
        \<and> \<not> is_infinity (parseFloat (width_input s))
        \<and> \<not> is_infinity (parseFloat (height_input s))"
  define w where "w = or_zero (parseFloat (width_input s))"
  define h where "h = or_zero (parseFloat (height_input s))"
  have wh: "\<not> isNaN w" "\<not> isNaN h" "\<not> is_infinity w" "\<not> is_infinity h"
    using a by (simp_all add: w_def h_def or_zero_NaN or_zero_infinity)
  from a have "w = Fin 0 \<or> h = Fin 0"
    by (cases "parseFloat (width_input s)"; cases "parseFloat (height_input s)")
       (auto simp: w_def h_def)
  with wh have "jmul w h = Fin 0"
    by (auto simp: jmul_zero_left jmul_zero_right)
  then show z: "calculateSquareMeters s = Fin 0"
    by (simp add: calculateSquareMeters_def Let_def w_def h_def)
  show "calculated_area_text s = Some ''0.00''"
    by (simp only: calculated_area_text_def z toFixed2_zero)
next
  assume "isNaN (parseFloat (fasciaPrice s))"
  then show "getFasciaPriceValue s = Fin 0"
    by (cases "parseFloat (fasciaPrice s)") (simp_all add: getFasciaPriceValue_def)
next
  assume "isNaN (parseFloat (installationPrice s))"
  then show "getInstallationPriceValue s = Fin 0"
    by (cases "parseFloat (installationPrice s)") (simp_all add: getInstallationPriceValue_def)
next
  assume a: "addItemToQuote s = Inr s' \<and> isNaN (parseFloat (fasciaPrice s))"
  then have f: "getFasciaPriceValue s = Fin 0"
    by (cases "parseFloat (fasciaPrice s)") (simp_all add: getFasciaPriceValue_def)
  from a show "fascia_price (last (quoteItems s')) = Fin 0"
    by (auto simp: addItemToQuote_def Let_def f split: option.splits if_splits)
  from a show "subtotal (last (quoteItems s')) =
            jadd (jmul (square_meters (last (quoteItems s'))) (unit_price (last (quoteItems s'))))
                 (installation_price (last (quoteItems s')))"
    by (auto simp: addItemToQuote_def Let_def f jadd_zero_right is_double_jmul
        split: option.splits if_splits)
next
  assume a: "addItemToQuote s = Inr s' \<and> isNaN (parseFloat (installationPrice s))"
  then have f: "getInstallationPriceValue s = Fin 0"
    by (cases "parseFloat (installationPrice s)") (simp_all add: getInstallationPriceValue_def)
  from a show "installation_price (last (quoteItems s')) = Fin 0"
    by (auto simp: addItemToQuote_def Let_def f split: option.splits if_splits)
  from a show "subtotal (last (quoteItems s')) =
            jadd (jmul (square_meters (last (quoteItems s'))) (unit_price (last (quoteItems s'))))
                 (fascia_price (last (quoteItems s')))"
    by (auto simp: addItemToQuote_def Let_def f jadd_zero_right is_double_jadd
        split: option.splits if_splits)
qed

theorem unparseable_fields_count_as_zero_witness:
  "isNaN (parseFloat (height_input width_only_form))
   \<and> \<not> is_infinity (parseFloat (width_input width_only_form))
   \<and> calculateSquareMeters width_only_form = Fin 0
   \<and> calculated_area_text width_only_form = Some ''0.00''
   \<and> isNaN (parseFloat (fasciaPrice width_only_form))
   \<and> getFasciaPriceValue width_only_form = Fin 0
   \<and> isNaN (parseFloat (installationPrice demo_form))
   \<and> addItemToQuote demo_form = Inr (projr (addItemToQuote demo_form))
   \<and> installation_price (last (quoteItems (projr (addItemToQuote demo_form)))) = Fin 0
   \<and> subtotal (last (quoteItems (projr (addItemToQuote demo_form)))) =
       jadd (jmul (square_meters (last (quoteItems (projr (addItemToQuote demo_form)))))
                  (unit_price (last (quoteItems (projr (addItemToQuote demo_form))))))
            (fascia_price (last (quoteItems (projr (addItemToQuote demo_form)))))"
proof -
  have h: "isNaN (parseFloat (height_input width_only_form))"
    by code_simp
  have w: "\<not> is_infinity (parseFloat (width_input width_only_form))"
    by code_simp
  have h': "\<not> is_infinity (parseFloat (height_input width_only_form))"
    by code_simp
  have f: "isNaN (parseFloat (fasciaPrice width_only_form))"
    by code_simp
  have i: "isNaN (parseFloat (installationPrice demo_form))"
    by code_simp
  have "\<not> isl (addItemToQuote demo_form)"
    by code_simp
  then have a: "addItemToQuote demo_form = Inr (projr (addItemToQuote demo_form))"
    by (cases "addItemToQuote demo_form") auto
  from unparseable_fields_count_as_zero [of width_only_form undefined]
    unparseable_fields_count_as_zero [of demo_form "projr (addItemToQuote demo_form)"]
    h w h' f i a
  show ?thesis by simp
qed

text \<open>
  With an empty width and the height \<open>Infinity\<close> the area is \<open>0 * Infinity\<close>, which
  is NaN, and the label shows NaN.
\<close>

theorem empty_width_with_infinite_height:
  "parseFloat (width_input infinite_height_form) = NaN
   \<and> parseFloat (height_input infinite_height_form) = PInf
   \<and> calculateSquareMeters infinite_height_form = NaN
   \<and> calculated_area_text infinite_height_form = Some ''NaN''"
  by code_simp

end
